theory Spec2Isabelle
  imports Complex_Main
begin

section \<open>Floating-point values\<close>

text \<open>
  The arrays and parameters of \<^verbatim>\<open>level.py\<close> are IEEE doubles. A finite double is
  modelled by the real number it denotes, and the three special values are kept, since
  the code divides by \<^verbatim>\<open>input_white - input_black\<close> without a guard. Rounding,
  overflow and the sign of zero are abstracted: arithmetic on finite values is exact,
  and a zero divisor counts as \<open>+0\<close>.
\<close>

datatype float64 = NaN | NegInf | Finite real | PosInf

fun fneg :: "float64 \<Rightarrow> float64" where
  "fneg NaN = NaN"
| "fneg NegInf = PosInf"
| "fneg (Finite a) = Finite (- a)"
| "fneg PosInf = NegInf"

fun fadd :: "float64 \<Rightarrow> float64 \<Rightarrow> float64" where
  "fadd NaN _ = NaN"
| "fadd _ NaN = NaN"
| "fadd (Finite a) (Finite b) = Finite (a + b)"
| "fadd PosInf NegInf = NaN"
| "fadd NegInf PosInf = NaN"
| "fadd PosInf _ = PosInf"
| "fadd _ PosInf = PosInf"
| "fadd NegInf _ = NegInf"
| "fadd _ NegInf = NegInf"

definition fsub :: "float64 \<Rightarrow> float64 \<Rightarrow> float64" where
  "fsub a b = fadd a (fneg b)"

fun fmul :: "float64 \<Rightarrow> float64 \<Rightarrow> float64" where
  "fmul NaN _ = NaN"
| "fmul _ NaN = NaN"
| "fmul (Finite a) (Finite b) = Finite (a * b)"
| "fmul (Finite a) PosInf = (if a = 0 then NaN else if 0 < a then PosInf else NegInf)"
| "fmul (Finite a) NegInf = (if a = 0 then NaN else if 0 < a then NegInf else PosInf)"
| "fmul PosInf (Finite b) = (if b = 0 then NaN else if 0 < b then PosInf else NegInf)"
| "fmul NegInf (Finite b) = (if b = 0 then NaN else if 0 < b then NegInf else PosInf)"
| "fmul PosInf PosInf = PosInf"
| "fmul PosInf NegInf = NegInf"
| "fmul NegInf PosInf = NegInf"
| "fmul NegInf NegInf = PosInf"

text \<open>
  numpy's true division: a finite value over zero is an infinity of the numerator's
  sign, zero over zero is NaN (a warning, not an exception).
\<close>

fun fdiv :: "float64 \<Rightarrow> float64 \<Rightarrow> float64" where
  "fdiv NaN _ = NaN"
| "fdiv _ NaN = NaN"
| "fdiv (Finite a) (Finite b) =
     (if b \<noteq> 0 then Finite (a / b)
      else if a = 0 then NaN else if 0 < a then PosInf else NegInf)"
| "fdiv (Finite a) _ = Finite 0"
| "fdiv PosInf (Finite b) = (if 0 \<le> b then PosInf else NegInf)"
| "fdiv NegInf (Finite b) = (if 0 \<le> b then NegInf else PosInf)"
| "fdiv _ _ = NaN"

text \<open>
  numpy's \<^verbatim>\<open>**\<close> on doubles is C's \<^verbatim>\<open>pow\<close>: anything to the power zero is one,
  one to any power is one, otherwise NaN propagates; zero to a negative power is
  infinite; a negative base needs an integral exponent.
\<close>

definition fpow :: "float64 \<Rightarrow> float64 \<Rightarrow> float64" where
  "fpow x y =
     (if y = Finite 0 then Finite 1
      else if x = Finite 1 then Finite 1
      else case x of
        NaN \<Rightarrow> NaN
      | Finite a \<Rightarrow>
          (case y of
             NaN \<Rightarrow> NaN
           | Finite b \<Rightarrow>
               (if 0 < a then Finite (a powr b)
                else if a = 0 then (if 0 < b then Finite 0 else PosInf)
                else if of_int \<lfloor>b\<rfloor> = b
                  then Finite ((if even \<lfloor>b\<rfloor> then 1 else - 1) * ((- a) powr b))
                  else NaN)
           | PosInf \<Rightarrow>
               (if \<bar>a\<bar> < 1 then Finite 0 else if \<bar>a\<bar> = 1 then Finite 1 else PosInf)
           | NegInf \<Rightarrow>
               (if \<bar>a\<bar> < 1 then PosInf else if \<bar>a\<bar> = 1 then Finite 1 else Finite 0))
      | PosInf \<Rightarrow>
          (case y of
             NaN \<Rightarrow> NaN
           | Finite b \<Rightarrow> (if 0 < b then PosInf else Finite 0)
           | PosInf \<Rightarrow> PosInf
           | NegInf \<Rightarrow> Finite 0)
      | NegInf \<Rightarrow>
          (case y of
             NaN \<Rightarrow> NaN
           | Finite b \<Rightarrow>
               (if 0 < b
                then (if of_int \<lfloor>b\<rfloor> = b \<and> odd \<lfloor>b\<rfloor> then NegInf else PosInf)
                else Finite 0)
           | PosInf \<Rightarrow> PosInf
           | NegInf \<Rightarrow> Finite 0))"

text \<open>
  \<^verbatim>\<open>np.clip(a, lo, hi)\<close> is \<^verbatim>\<open>minimum(maximum(a, lo), hi)\<close>, and both propagate NaN:
  an infinity is clipped to a bound, NaN stays NaN.
\<close>

fun np_clip :: "float64 \<Rightarrow> real \<Rightarrow> real \<Rightarrow> float64" where
  "np_clip NaN lo hi = NaN"
| "np_clip NegInf lo hi = Finite (min lo hi)"
| "np_clip (Finite a) lo hi = Finite (min (max a lo) hi)"
| "np_clip PosInf lo hi = Finite hi"

text \<open>The comparison \<^verbatim>\<open><=\<close> of doubles: NaN is not comparable to anything.\<close>

fun fle :: "float64 \<Rightarrow> float64 \<Rightarrow> bool" where
  "fle NaN _ = False"
| "fle _ NaN = False"
| "fle NegInf _ = True"
| "fle _ PosInf = True"
| "fle (Finite a) (Finite b) = (a \<le> b)"
| "fle _ _ = False"

section \<open>level.py\<close>

text \<open>
  \<^verbatim>\<open>level_array\<close>, lines 41-42. The array is combined with scalars, so each numpy
  operation acts on every element on its own; \<open>level_value\<close> is the expression at one
  element and \<open>level_array\<close> maps it over the array.
\<close>

definition level_value ::
  "float64 \<Rightarrow> float64 \<Rightarrow> float64 \<Rightarrow> float64 \<Rightarrow> float64 \<Rightarrow> float64 \<Rightarrow> float64" where
  "level_value input_black input_white output_black output_white gamma v =
     np_clip
       (fadd
          (fmul
             (fpow (np_clip (fdiv (fsub v input_black) (fsub input_white input_black)) 0 1)
                gamma)
             (fsub output_white output_black))
          output_black)
       0 1"

definition level_array ::
  "float64 list \<Rightarrow> float64 \<Rightarrow> float64 \<Rightarrow> float64 \<Rightarrow> float64 \<Rightarrow> float64 \<Rightarrow> float64 list" where
  "level_array array input_black input_white output_black output_white gamma =
     map (level_value input_black input_white output_black output_white gamma) array"

text \<open>The named tuple of lines 9-23: the settings for one band.\<close>

record LevelsAdjustment =
  input_black :: float64
  input_white :: float64
  output_black :: float64
  output_white :: float64
  gamma :: float64


text \<open>The same curve on real numbers, for finite arguments away from the degenerate case.\<close>

definition curve :: "real \<Rightarrow> real \<Rightarrow> real \<Rightarrow> real \<Rightarrow> real \<Rightarrow> real \<Rightarrow> real" where
  "curve ib iw ob ow g x =
     min (max ((min (max ((x - ib) / (iw - ib)) 0) 1) powr g * (ow - ob) + ob) 0) 1"

section \<open>match.py\<close>

subsection \<open>The libraries\<close>

text \<open>
  Python exceptions are values: a call returns \<open>Inl\<close> of the exception's class or
  \<open>Inr\<close> of its result.
\<close>

datatype error = ValueError | RuntimeError | TypeError | IndexError

type_synonym model_fn =
  "float64 list \<Rightarrow> float64 \<Rightarrow> float64 \<Rightarrow> float64 \<Rightarrow> float64 \<Rightarrow> float64 \<Rightarrow> float64 list"

text \<open>The arguments of one call of \<^verbatim>\<open>scipy.optimize.curve_fit\<close>.\<close>

record curve_fit_call =
  arg_f :: model_fn
  arg_xdata :: "float64 list"
  arg_ydata :: "float64 list"
  arg_method :: string
  arg_xtol :: real
  arg_p0 :: "float64 list"
  arg_bounds :: "float64 list \<times> float64 list"

text \<open>
  A PIL image as the matcher sees it: its size (width, height) and its bands, each a
  name (\<^verbatim>\<open>getbands\<close>) with the flattened plane of pixel values (\<^verbatim>\<open>split\<close>, then
  \<^verbatim>\<open>np.asarray\<close>).
\<close>

record image =
  im_size :: "nat \<times> nat"
  im_bands :: "(string \<times> real list) list"

datatype resample = NEAREST | BOX | BILINEAR | HAMMING | BICUBIC | LANCZOS

text \<open>
  numpy's quantiles, scipy's bounded least-squares solver and PIL's resampling are not
  code of this repository: they are parameters of the model. \<open>curve_fit\<close> returns the
  optimal parameters \<^verbatim>\<open>popt\<close>, or raises (\<open>RuntimeError\<close> when the solver does not
  converge).
\<close>

record library =
  np_quantile :: "real list \<Rightarrow> real list \<Rightarrow> error + float64 list"
  curve_fit :: "curve_fit_call \<Rightarrow> error + float64 list"
  resize :: "image \<Rightarrow> nat \<times> nat \<Rightarrow> resample \<Rightarrow> error + image"

text \<open>
  \<^verbatim>\<open>np.linspace(start, stop, num)\<close> with the end point included: \<open>num\<close> values in steps
  of \<open>(stop - start) / (num - 1)\<close>; one value is \<open>start\<close> alone, a negative count raises.
\<close>

definition linspace :: "real \<Rightarrow> real \<Rightarrow> int \<Rightarrow> error + real list" where
  "linspace start stop num =
     (if num < 0 then Inl ValueError
      else if num = 1 then Inr [start]
      else Inr (map (\<lambda>i. start + real i * ((stop - start) / real_of_int (num - 1)))
                  [0..<nat num]))"

subsection \<open>Fitting one band\<close>

text \<open>\<^verbatim>\<open>LevelsAdjustment(*popt)\<close>: five positional arguments, anything else is a TypeError.\<close>

fun LevelsAdjustment_of :: "float64 list \<Rightarrow> error + LevelsAdjustment" where
  "LevelsAdjustment_of [a, b, c, d, e] =
     Inr \<lparr>input_black = a, input_white = b, output_black = c, output_white = d, gamma = e\<rparr>"
| "LevelsAdjustment_of _ = Inl TypeError"

text \<open>The named tuple read as a sequence, as \<^verbatim>\<open>curve_fit\<close> reads \<^verbatim>\<open>p0\<close>.\<close>

definition fields :: "LevelsAdjustment \<Rightarrow> float64 list" where
  "fields adj =
     [input_black adj, input_white adj, output_black adj, output_white adj, gamma adj]"

text \<open>
  \<^verbatim>\<open>np.divide(np.quantile(x, np.linspace(0, 1, samples)), 255)\<close>, the expression of
  lines 28 and 29.
\<close>

definition scaled_quantiles :: "library \<Rightarrow> real list \<Rightarrow> int \<Rightarrow> error + float64 list" where
  "scaled_quantiles lib x samples =
     (case linspace 0 1 samples of
        Inl e \<Rightarrow> Inl e
      | Inr qs \<Rightarrow>
          (case np_quantile lib x qs of
             Inl e \<Rightarrow> Inl e
           | Inr v \<Rightarrow> Inr (map (\<lambda>q. fdiv q (Finite 255)) v)))"

text \<open>
  \<^verbatim>\<open>match_histogram\<close>, lines 12-34. The keyword arguments \<^verbatim>\<open>xtol\<close> and \<^verbatim>\<open>samples\<close> are
  optional: \<open>None\<close> is the argument left out, which takes the default of the signature.
\<close>

definition match_histogram ::
  "library \<Rightarrow> real list \<Rightarrow> real list \<Rightarrow> real option \<Rightarrow> int option \<Rightarrow> error + LevelsAdjustment" where
  "match_histogram lib x y xtol_kw samples_kw =
     (let xtol = (case xtol_kw of None \<Rightarrow> 1 / 1024 | Some t \<Rightarrow> t);
          samples = (case samples_kw of None \<Rightarrow> 2048 | Some n \<Rightarrow> n)
      in case scaled_quantiles lib x samples of
           Inl e \<Rightarrow> Inl e
         | Inr xdata \<Rightarrow>
             (case scaled_quantiles lib y samples of
                Inl e \<Rightarrow> Inl e
              | Inr ydata \<Rightarrow>
                  (case curve_fit lib
                          \<lparr>arg_f = level_array, arg_xdata = xdata, arg_ydata = ydata,
                           arg_method = ''dogbox'', arg_xtol = xtol,
                           arg_p0 = [Finite 0, Finite 1, Finite 0, Finite 1, Finite 1],
                           arg_bounds =
                             ([Finite 0, Finite 0, Finite 0, Finite 0, Finite 0],
                              [Finite 1, Finite 1, Finite 1, Finite 1, PosInf])\<rparr> of
                     Inl e \<Rightarrow> Inl e
                   | Inr popt \<Rightarrow> LevelsAdjustment_of popt)))"

text \<open>\<^verbatim>\<open>match_array\<close>, lines 37-64; \<^verbatim>\<open>x.size\<close> is the number of elements of the array.\<close>

definition match_array ::
  "library \<Rightarrow> real list \<Rightarrow> real list \<Rightarrow> real option \<Rightarrow> int option \<Rightarrow> error + LevelsAdjustment" where
  "match_array lib x y xtol_kw samples_kw =
     (let xtol = (case xtol_kw of None \<Rightarrow> 1 / 1024 | Some t \<Rightarrow> t);
          samples = (case samples_kw of None \<Rightarrow> 2048 | Some n \<Rightarrow> n)
      in case (if int (length x) > samples
               then (case match_histogram lib x y (Some (1 / 256)) (Some samples) of
                       Inl e \<Rightarrow> Inl e
                     | Inr adj \<Rightarrow> Inr (fields adj))
               else Inr [Finite 0, Finite 1, Finite 0, Finite 1, Finite 1]) of
           Inl e \<Rightarrow> Inl e
         | Inr p0 \<Rightarrow>
             (let xdata = map (\<lambda>v. fdiv (Finite v) (Finite 255)) x;
                  ydata = map (\<lambda>v. fdiv (Finite v) (Finite 255)) y
              in case curve_fit lib
                        \<lparr>arg_f = level_array, arg_xdata = xdata, arg_ydata = ydata,
                         arg_method = ''dogbox'', arg_xtol = xtol, arg_p0 = p0,
                         arg_bounds =
                           ([Finite 0, Finite 0, Finite 0, Finite 0, Finite 0],
                            [Finite 1, Finite 1, Finite 1, Finite 1, PosInf])\<rparr> of
                   Inl e \<Rightarrow> Inl e
                 | Inr popt \<Rightarrow> LevelsAdjustment_of popt))"

subsection \<open>The thread pool\<close>

text \<open>
  The tasks of the pool share no state, so a run of the pool is the order in which the
  submitted tasks complete. \<open>pending\<close> holds the tasks not yet complete, each with the
  index of its future; \<open>sched\<close> is the scheduler's choice at each step (the task at
  position \<open>c mod length pending\<close> completes next); when the choices run out the rest
  complete in order. Leaving the \<^verbatim>\<open>with\<close> block waits for every task, so the run ends
  when nothing is pending. The store maps the index of a future to its outcome.
\<close>

fun run_pool :: "nat list \<Rightarrow> (nat \<times> 'r) list \<Rightarrow> (nat \<rightharpoonup> 'r) \<Rightarrow> (nat \<rightharpoonup> 'r)" where
  "run_pool sched [] store = store"
| "run_pool [] ((i, r) # pending) store = run_pool [] pending (store(i \<mapsto> r))"
| "run_pool (c # sched) pending store =
     (let j = c mod length pending
      in run_pool sched (take j pending @ drop (Suc j) pending)
           (store(fst (pending ! j) \<mapsto> snd (pending ! j))))"

text \<open>
  \<^verbatim>\<open>[future.result() for future in futures]\<close>: the outcomes in the order of the list of
  futures; the first exception ends the comprehension. A future that never completes
  would block (\<open>None\<close>).
\<close>

fun future_results :: "(nat \<rightharpoonup> error + 'a) \<Rightarrow> nat list \<Rightarrow> (error + 'a list) option" where
  "future_results store [] = Some (Inr [])"
| "future_results store (i # rest) =
     (case store i of
        None \<Rightarrow> None
      | Some (Inl e) \<Rightarrow> Some (Inl e)
      | Some (Inr v) \<Rightarrow>
          (case future_results store rest of
             None \<Rightarrow> None
           | Some (Inl e) \<Rightarrow> Some (Inl e)
           | Some (Inr vs) \<Rightarrow> Some (Inr (v # vs))))"

subsection \<open>Matching two images\<close>

text \<open>Lines 76-80 of \<^verbatim>\<open>match_images\<close>: if the sizes differ, resize both down.\<close>

definition resize_down :: "library \<Rightarrow> image \<Rightarrow> image \<Rightarrow> error + image \<times> image" where
  "resize_down lib x y =
     (if im_size x \<noteq> im_size y
      then (let new_size = (min (fst (im_size x)) (fst (im_size y)),
                            min (snd (im_size x)) (snd (im_size y)))
            in case resize lib x new_size BICUBIC of
                 Inl e \<Rightarrow> Inl e
               | Inr x' \<Rightarrow>
                   (case resize lib y new_size BICUBIC of
                      Inl e \<Rightarrow> Inl e
                    | Inr y' \<Rightarrow> Inr (x', y')))
      else Inr (x, y))"

text \<open>
  \<^verbatim>\<open>match_images\<close>, lines 67-96, for one run \<open>sched\<close> of the pool. The value is what the
  call returns; what it prints is \<open>match_images_stdout\<close>.
\<close>

definition match_images ::
  "library \<Rightarrow> nat list \<Rightarrow> image \<Rightarrow> image \<Rightarrow> bool \<Rightarrow> (error + LevelsAdjustment list) option" where
  "match_images lib sched x y histogram =
     (case resize_down lib x y of
        Inl e \<Rightarrow> Some (Inl e)
      | Inr (x, y) \<Rightarrow>
          (let match = (if \<not> histogram then match_array lib else match_histogram lib);
               tasks = map (\<lambda>(x, y). match x y None None)
                         (zip (map snd (im_bands x)) (map snd (im_bands y)));
               futures = [0..<length tasks];
               store = run_pool sched (zip futures tasks) Map.empty
           in future_results store futures))"

text \<open>
  Lines 93-95: one line for each band, its name and the parameters with the four black
  and white points scaled to 8 bits.
\<close>

definition match_images_stdout ::
  "library \<Rightarrow> nat list \<Rightarrow> image \<Rightarrow> image \<Rightarrow> bool \<Rightarrow> (string \<times> float64 list) list" where
  "match_images_stdout lib sched x y histogram =
     (case (resize_down lib x y, match_images lib sched x y histogram) of
        (Inr (x, y), Some (Inr results)) \<Rightarrow>
          map (\<lambda>(b, adj).
                 (b @ '':'',
                  take 4 (map (\<lambda>v. fmul v (Finite 255)) (fields adj)) @ [fields adj ! 4]))
            (zip (map fst (im_bands x)) results)
      | _ \<Rightarrow> [])"

section \<open>Notions used by the statements\<close>

text \<open>The planes of two images paired band by band, as \<^verbatim>\<open>zip(x.split(), y.split())\<close>.\<close>

definition band_pairs :: "image \<Rightarrow> image \<Rightarrow> (real list \<times> real list) list" where
  "band_pairs x y = zip (map snd (im_bands x)) (map snd (im_bands y))"

text \<open>The fit of one pair of planes as \<^verbatim>\<open>match_images\<close> submits it: default keywords.\<close>

definition band_fit ::
  "library \<Rightarrow> bool \<Rightarrow> real list \<times> real list \<Rightarrow> error + LevelsAdjustment" where
  "band_fit lib histogram p =
     (if \<not> histogram then match_array lib (fst p) (snd p) None None
      else match_histogram lib (fst p) (snd p) None None)"

text \<open>Outcomes read in order: the first exception, or every result.\<close>

fun in_order :: "(error + 'a) list \<Rightarrow> error + 'a list" where
  "in_order [] = Inr []"
| "in_order (Inl e # rs) = Inl e"
| "in_order (Inr v # rs) = (case in_order rs of Inl e \<Rightarrow> Inl e | Inr vs \<Rightarrow> Inr (v # vs))"

text \<open>
  The bounded least-squares fit of the tone curve on given data, as both strategies of
  section 4.2 of the specification run it: method dogbox, the box
  \<open>[0,1]\<^sup>4 \<times> [0,\<infinity>)\<close>, a step tolerance and an initial guess.
\<close>

definition bounded_fit ::
  "library \<Rightarrow> float64 list \<Rightarrow> float64 list \<Rightarrow> real \<Rightarrow> float64 list \<Rightarrow> error + LevelsAdjustment" where
  "bounded_fit lib xs ys tolerance guess =
     (case curve_fit lib
             \<lparr>arg_f = level_array, arg_xdata = xs, arg_ydata = ys, arg_method = ''dogbox'',
              arg_xtol = tolerance, arg_p0 = guess,
              arg_bounds =
                ([Finite 0, Finite 0, Finite 0, Finite 0, Finite 0],
                 [Finite 1, Finite 1, Finite 1, Finite 1, PosInf])\<rparr> of
        Inl e \<Rightarrow> Inl e
      | Inr popt \<Rightarrow> LevelsAdjustment_of popt)"

text \<open>
  The calls of the solver that a fit makes, in the order in which it makes them. A call
  is made only when everything before it has returned: the histogram fit makes its one
  call when both quantile arrays are there, and \<open>match_array\<close> makes the call of its
  histogram seed (for an array larger than the sample count) and then, when the seed
  has returned parameters, the call on the pixels.
\<close>

definition fit_call :: "float64 list \<Rightarrow> float64 list \<Rightarrow> real \<Rightarrow> float64 list \<Rightarrow> curve_fit_call" where
  "fit_call xs ys tolerance guess =
     \<lparr>arg_f = level_array, arg_xdata = xs, arg_ydata = ys, arg_method = ''dogbox'',
      arg_xtol = tolerance, arg_p0 = guess,
      arg_bounds =
        ([Finite 0, Finite 0, Finite 0, Finite 0, Finite 0],
         [Finite 1, Finite 1, Finite 1, Finite 1, PosInf])\<rparr>"

definition histogram_calls ::
  "library \<Rightarrow> real list \<Rightarrow> real list \<Rightarrow> real option \<Rightarrow> int option \<Rightarrow> curve_fit_call list" where
  "histogram_calls lib x y xtol_kw samples_kw =
     (let xtol = (case xtol_kw of None \<Rightarrow> 1 / 1024 | Some t \<Rightarrow> t);
          samples = (case samples_kw of None \<Rightarrow> 2048 | Some n \<Rightarrow> n)
      in case scaled_quantiles lib x samples of
           Inl e \<Rightarrow> []
         | Inr xq \<Rightarrow>
             (case scaled_quantiles lib y samples of
                Inl e \<Rightarrow> []
              | Inr yq \<Rightarrow>
                  [fit_call xq yq xtol [Finite 0, Finite 1, Finite 0, Finite 1, Finite 1]]))"

definition array_calls ::
  "library \<Rightarrow> real list \<Rightarrow> real list \<Rightarrow> real option \<Rightarrow> int option \<Rightarrow> curve_fit_call list" where
  "array_calls lib x y xtol_kw samples_kw =
     (let xtol = (case xtol_kw of None \<Rightarrow> 1 / 1024 | Some t \<Rightarrow> t);
          samples = (case samples_kw of None \<Rightarrow> 2048 | Some n \<Rightarrow> n);
          xs = map (\<lambda>v. fdiv (Finite v) (Finite 255)) x;
          ys = map (\<lambda>v. fdiv (Finite v) (Finite 255)) y
      in if int (length x) > samples
         then histogram_calls lib x y (Some (1 / 256)) (Some samples)
              @ (case match_histogram lib x y (Some (1 / 256)) (Some samples) of
                   Inl e \<Rightarrow> []
                 | Inr seed \<Rightarrow> [fit_call xs ys xtol (fields seed)])
         else [fit_call xs ys xtol [Finite 0, Finite 1, Finite 0, Finite 1, Finite 1]])"

definition solver_calls :: "library \<Rightarrow> bool \<Rightarrow> real list \<times> real list \<Rightarrow> curve_fit_call list" where
  "solver_calls lib histogram p =
     (if \<not> histogram then array_calls lib (fst p) (snd p) None None
      else histogram_calls lib (fst p) (snd p) None None)"

text \<open>Evenly spaced positions from 0 to 1, both included: \<open>i / (n - 1)\<close> for \<open>i < n\<close>.\<close>

definition even_positions :: "nat \<Rightarrow> real list" where
  "even_positions n = map (\<lambda>i. real i / real (n - 1)) [0..<n]"

text \<open>
  The histogram strategy in the words of the specification (section 4.2, steps 1-3):
  the quantiles of both samples at the evenly spaced positions, divided by 255, then
  the bounded fit from the guess \<open>(0,1,0,1,1)\<close>.
\<close>

definition fit_by_histogram ::
  "library \<Rightarrow> real list \<Rightarrow> real list \<Rightarrow> real \<Rightarrow> nat \<Rightarrow> error + LevelsAdjustment" where
  "fit_by_histogram lib x_samples y_samples tolerance sample_count =
     (case np_quantile lib x_samples (even_positions sample_count) of
        Inl e \<Rightarrow> Inl e
      | Inr xq \<Rightarrow>
          (case np_quantile lib y_samples (even_positions sample_count) of
             Inl e \<Rightarrow> Inl e
           | Inr yq \<Rightarrow>
               bounded_fit lib (map (\<lambda>q. fdiv q (Finite 255)) xq)
                 (map (\<lambda>q. fdiv q (Finite 255)) yq) tolerance
                 [Finite 0, Finite 1, Finite 0, Finite 1, Finite 1]))"

text \<open>The box of the fitted values: four values in \<open>[0,1]\<close> and gamma in \<open>[0,\<infinity>)\<close>.\<close>

fun in_unit :: "float64 \<Rightarrow> bool" where
  "in_unit (Finite a) = (0 \<le> a \<and> a \<le> 1)"
| "in_unit _ = False"

fun nonneg_finite :: "float64 \<Rightarrow> bool" where
  "nonneg_finite (Finite a) = (0 \<le> a)"
| "nonneg_finite _ = False"

definition in_box :: "LevelsAdjustment \<Rightarrow> bool" where
  "in_box adj =
     (in_unit (input_black adj) \<and> in_unit (input_white adj) \<and> in_unit (output_black adj)
      \<and> in_unit (output_white adj) \<and> nonneg_finite (gamma adj))"

fun is_finite :: "float64 \<Rightarrow> bool" where
  "is_finite (Finite a) = True"
| "is_finite _ = False"

text \<open>
  What scipy promises of a bounded fit: the parameters it returns are finite and lie
  between the bounds of the call.
\<close>

definition within_bounds :: "float64 list \<Rightarrow> float64 list \<times> float64 list \<Rightarrow> bool" where
  "within_bounds p b =
     (list_all2 fle (fst b) p \<and> list_all2 fle p (snd b) \<and> list_all is_finite p)"

definition respects_bounds :: "library \<Rightarrow> bool" where
  "respects_bounds lib =
     (\<forall>c popt. curve_fit lib c = Inr popt \<longrightarrow> within_bounds popt (arg_bounds c))"

text \<open>
  What PIL promises of \<^verbatim>\<open>resize\<close>: an image of the requested size, every band a plane
  of width times height pixels.
\<close>

definition planes_fit_size :: "image \<Rightarrow> bool" where
  "planes_fit_size img =
     list_all (\<lambda>(b, plane). length plane = fst (im_size img) * snd (im_size img))
       (im_bands img)"

definition resize_gives_size :: "library \<Rightarrow> bool" where
  "resize_gives_size lib =
     (\<forall>img sz r img'. resize lib img sz r = Inr img' \<longrightarrow>
        im_size img' = sz \<and> planes_fit_size img')"

text \<open>The element-wise minimum of two sizes.\<close>

definition min_size :: "image \<Rightarrow> image \<Rightarrow> nat \<times> nat" where
  "min_size x y =
     (min (fst (im_size x)) (fst (im_size y)), min (snd (im_size x)) (snd (im_size y)))"

section \<open>A library to run the model on\<close>

text \<open>
  Stand-ins for the three libraries, to evaluate the model on concrete images:
  quantiles by linear interpolation between order statistics (numpy's default
  method), a solver that stops at a feasible initial guess and rejects an infeasible
  one, a solver that also fails to converge on one given sample, and a solver that
  moves the output white point of the guess to the last target value and so tells the
  bands apart; nearest-neighbour resampling.
\<close>

definition quantile_linear :: "real list \<Rightarrow> real list \<Rightarrow> error + float64 list" where
  "quantile_linear a qs =
     (if a = [] then Inl IndexError
      else let s = sort a; n = length a
           in Inr (map (\<lambda>q. let h = q * real (n - 1);
                                 lo = nat \<lfloor>h\<rfloor>;
                                 hi = min (lo + 1) (n - 1)
                             in Finite (s ! lo + (h - real lo) * (s ! hi - s ! lo)))
                     qs))"

definition solver_at_guess :: "curve_fit_call \<Rightarrow> error + float64 list" where
  "solver_at_guess c =
     (if within_bounds (arg_p0 c) (arg_bounds c) then Inr (arg_p0 c) else Inl ValueError)"

definition solver_failing_on :: "float64 list \<Rightarrow> curve_fit_call \<Rightarrow> error + float64 list" where
  "solver_failing_on xs c = (if arg_xdata c = xs then Inl RuntimeError else solver_at_guess c)"

definition resize_nearest :: "image \<Rightarrow> nat \<times> nat \<Rightarrow> resample \<Rightarrow> error + image" where
  "resize_nearest img sz r =
     (let w = fst (im_size img); h = snd (im_size img); w' = fst sz; h' = snd sz
      in if w = 0 \<or> h = 0 then Inl ValueError
         else Inr \<lparr>im_size = sz,
                   im_bands =
                     map (\<lambda>(b, plane).
                            (b, map (\<lambda>k. plane ! (((k div w') * h div h') * w + (k mod w') * w div w'))
                                  [0..<w' * h']))
                       (im_bands img)\<rparr>)"

definition solver_white_point :: "curve_fit_call \<Rightarrow> error + float64 list" where
  "solver_white_point c =
     (if arg_ydata c = [] then Inl ValueError
      else Inr ((arg_p0 c)[3 := last (arg_ydata c)]))"

definition example_lib :: library where
  "example_lib =
     \<lparr>np_quantile = quantile_linear, curve_fit = solver_at_guess, resize = resize_nearest\<rparr>"

definition identity_adjustment :: LevelsAdjustment where
  "identity_adjustment =
     \<lparr>input_black = Finite 0, input_white = Finite 1, output_black = Finite 0,
      output_white = Finite 1, gamma = Finite 1\<rparr>"

text \<open>
  The library whose solver fails to converge on a constant sample of ones, and the
  library whose solver reads the white point off the target.
\<close>

definition failing_lib :: library where
  "failing_lib = example_lib\<lparr>curve_fit := solver_failing_on [Finite 1, Finite 1]\<rparr>"

definition white_lib :: library where
  "white_lib = example_lib\<lparr>curve_fit := solver_white_point\<rparr>"

definition white_at :: "real \<Rightarrow> LevelsAdjustment" where
  "white_at w = identity_adjustment\<lparr>output_white := Finite w\<rparr>"

text \<open>
  Images of two pixels (gray with alpha, gray alone, two RGB images) and one of a
  single pixel.
\<close>

definition la_image :: image where
  "la_image = \<lparr>im_size = (2, 1), im_bands = [(''L'', [0, 255]), (''A'', [255, 255])]\<rparr>"

definition l_image :: image where
  "l_image = \<lparr>im_size = (2, 1), im_bands = [(''L'', [0, 255])]\<rparr>"

definition la_pixel :: image where
  "la_pixel = \<lparr>im_size = (1, 1), im_bands = [(''L'', [0]), (''A'', [255])]\<rparr>"

definition rgb_x :: image where
  "rgb_x = \<lparr>im_size = (2, 1),
            im_bands = [(''R'', [0, 255]), (''G'', [0, 255]), (''B'', [0, 255])]\<rparr>"

definition rgb_y :: image where
  "rgb_y = \<lparr>im_size = (2, 1),
            im_bands = [(''R'', [0, 255]), (''G'', [0, 204]), (''B'', [0, 102])]\<rparr>"

section \<open>The tone curve\<close>

lemma fpow_unit: "0 \<le> t \<Longrightarrow> 0 < g \<Longrightarrow> fpow (Finite t) (Finite g) = Finite (t powr g)"
  by (simp add: fpow_def)

text \<open>
  Away from the degenerate case and for a positive gamma, the value at a finite element
  is the real curve.
\<close>

lemma level_value_finite:
  assumes "iw \<noteq> ib" "0 < g"
  shows "level_value (Finite ib) (Finite iw) (Finite ob) (Finite ow) (Finite g) (Finite x)
         = Finite (curve ib iw ob ow g x)"
proof -
  have "fdiv (fsub (Finite x) (Finite ib)) (fsub (Finite iw) (Finite ib))
        = Finite ((x - ib) / (iw - ib))"
    using assms by (simp add: fsub_def)
  then show ?thesis using assms
    by (simp add: level_value_def curve_def fpow_unit fsub_def)
qed

lemma curve_in_unit: "0 \<le> curve ib iw ob ow g x \<and> curve ib iw ob ow g x \<le> 1"
  by (simp add: curve_def)

text \<open>
  With equal black and white input points the division is by zero: an element other
  than the black point becomes an infinity, which the inner clip turns into 0 or 1.
\<close>

lemma level_value_degenerate:
  assumes "x \<noteq> ib" "0 < g"
  shows "level_value (Finite ib) (Finite ib) (Finite ob) (Finite ow) (Finite g) (Finite x)
         = Finite (min (max ((if ib < x then 1 else 0) * (ow - ob) + ob) 0) 1)"
  using assms by (simp add: level_value_def fsub_def fpow_def)

lemma level_value_range:
  assumes "iw \<noteq> ib \<or> x \<noteq> ib" "0 < g"
  shows "in_unit (level_value (Finite ib) (Finite iw) (Finite ob) (Finite ow) (Finite g) (Finite x))"
proof (cases "iw = ib")
  case True
  with assms have "x \<noteq> ib" by simp
  from level_value_degenerate[OF this assms(2)] True show ?thesis by simp
next
  case False
  from level_value_finite[OF this assms(2)] curve_in_unit show ?thesis by simp
qed





text \<open>
  C9. Values in [0,1] are promised also when the two input points are equal, the
  infinities and NaN of the division being clipped. The code does not keep this: at
  an element equal to both input points the quotient is 0/0, and NaN passes through
  both clips, so the value is NaN. (An element elsewhere gives an infinity, which is
  clipped: \<open>level_value_degenerate\<close>.)
\<close>

theorem level_array_degenerate_nan:
  "level_array [Finite 0, Finite 1] (Finite 0) (Finite 0) (Finite 0) (Finite 1) (Finite 1)
   = [NaN, Finite 1]"
  by (simp add: level_array_def level_value_def fsub_def fpow_def)







section \<open>The pool and the order of the results\<close>

lemma map_of_insert_mid:
  assumes "k \<notin> fst ` set xs"
  shows "map_of (xs @ (k, v) # ys) = (map_of (xs @ ys))(k \<mapsto> v)"
proof -
  have "k \<notin> dom (map_of xs)" using assms by (simp add: dom_map_of_conv_image_fst)
  then show ?thesis by (simp add: map_add_upd_left)
qed

text \<open>
  Whatever the scheduler chooses, a run stores the outcome of every pending task under
  the index of its future.
\<close>

lemma run_pool_store:
  "distinct (map fst pending) \<Longrightarrow> run_pool sched pending store = store ++ map_of pending"
proof (induction sched pending store rule: run_pool.induct)
  case (1 sched store)
  then show ?case by simp
next
  case (2 i r pending store)
  then have "i \<notin> dom (map_of pending)" by (simp add: dom_map_of_conv_image_fst)
  then have a: "store(i \<mapsto> r) ++ map_of pending = (store ++ map_of pending)(i \<mapsto> r)"
    by (rule map_add_upd_left)
  have "distinct (map fst pending)" using "2.prems" by simp
  then have "run_pool [] pending (store(i \<mapsto> r)) = store(i \<mapsto> r) ++ map_of pending"
    by (rule "2.IH")
  then have "run_pool [] ((i, r) # pending) store = (store ++ map_of pending)(i \<mapsto> r)"
    using a by (simp only: run_pool.simps)
  also have "\<dots> = store ++ map_of ((i, r) # pending)" by simp
  finally show ?case .
next
  case (3 c sched v va store)
  define p where "p = v # va"
  define j where "j = c mod length p"
  define k where "k = fst (p ! j)"
  define r where "r = snd (p ! j)"
  define p' where "p' = take j p @ drop (Suc j) p"
  have j: "j < length p" by (simp add: j_def p_def)
  then have p: "p = take j p @ (k, r) # drop (Suc j) p"
    by (simp add: k_def r_def id_take_nth_drop[symmetric])
  have "distinct (map fst (take j p @ (k, r) # drop (Suc j) p))"
    using "3.prems" p p_def by simp
  then have d: "distinct (map fst p')" and k1: "k \<notin> fst ` set (take j p)" and k2: "k \<notin> fst ` set p'"
    by (auto simp: p'_def)
  have d': "distinct (map fst (take (c mod length (v # va)) (v # va)
                  @ drop (Suc (c mod length (v # va))) (v # va)))"
    using d unfolding p'_def j_def p_def .
  from "3.IH"[OF refl d']
  have IH: "run_pool sched p' (store(k \<mapsto> r)) = store(k \<mapsto> r) ++ map_of p'"
    unfolding p'_def k_def r_def j_def p_def .
  have "k \<notin> dom (map_of p')" using k2 by (simp add: dom_map_of_conv_image_fst)
  then have a: "store(k \<mapsto> r) ++ map_of p' = (store ++ map_of p')(k \<mapsto> r)"
    by (rule map_add_upd_left)
  have "map_of p = (map_of p')(k \<mapsto> r)"
    using map_of_insert_mid[OF k1, of r "drop (Suc j) p"] p by (simp add: p'_def)
  then have b: "store ++ map_of p = (store ++ map_of p')(k \<mapsto> r)" by simp
  have "run_pool (c # sched) p store = run_pool sched p' (store(k \<mapsto> r))"
    unfolding p'_def k_def r_def j_def p_def by (simp only: run_pool.simps Let_def)
  also have "\<dots> = store ++ map_of p" using IH a b by (simp only:)
  finally show ?case unfolding p_def .
qed

lemma future_results_in_order:
  "\<forall>i < length tasks. store (k + i) = Some (tasks ! i) \<Longrightarrow>
   future_results store [k..<k + length tasks] = Some (in_order tasks)"
proof (induction tasks arbitrary: k)
  case Nil
  then show ?case by simp
next
  case (Cons t ts)
  have hd: "store k = Some t" using Cons.prems by force
  have "\<forall>i < length ts. store (Suc k + i) = Some (ts ! i)"
    using Cons.prems by force
  then have tl: "future_results store [Suc k..<Suc k + length ts] = Some (in_order ts)"
    by (rule Cons.IH)
  have "[k..<k + length (t # ts)] = k # [Suc k..<Suc k + length ts]"
    by (simp add: upt_rec)
  with hd tl show ?case by (cases t) (auto split: sum.splits)
qed

lemma pool_results:
  "future_results (run_pool sched (zip [0..<length tasks] tasks) Map.empty) [0..<length tasks]
   = Some (in_order tasks)"
proof -
  have d: "distinct (map fst (zip [0..<length tasks] tasks))" by simp
  have "\<forall>i < length tasks.
          run_pool sched (zip [0..<length tasks] tasks) Map.empty (0 + i) = Some (tasks ! i)"
  proof (intro allI impI)
    fix i assume i: "i < length tasks"
    have "map_of (zip [0..<length tasks] tasks) ([0..<length tasks] ! i) = Some (tasks ! i)"
      using i by (intro map_of_zip_nth) simp_all
    then show "run_pool sched (zip [0..<length tasks] tasks) Map.empty (0 + i) = Some (tasks ! i)"
      using i by (simp add: run_pool_store[OF d])
  qed
  from future_results_in_order[OF this] show ?thesis by simp
qed

text \<open>
  So a call of \<open>match_images\<close> is the size step followed by the fits of the paired
  bands, read in band order, and the run of the pool does not show in its value.
\<close>

lemma match_images_eq:
  "match_images lib sched x y histogram =
     (case resize_down lib x y of
        Inl e \<Rightarrow> Some (Inl e)
      | Inr (x', y') \<Rightarrow> Some (in_order (map (band_fit lib histogram) (band_pairs x' y'))))"
proof (cases "resize_down lib x y")
  case (Inl e)
  then show ?thesis by (simp add: match_images_def)
next
  case (Inr p)
  obtain x' y' where p: "p = (x', y')" by (cases p)
  define tasks where "tasks = map (band_fit lib histogram) (band_pairs x' y')"
  have t: "map (\<lambda>(x, y). (if \<not> histogram then match_array lib else match_histogram lib) x y None None)
           (zip (map snd (im_bands x')) (map snd (im_bands y')))
        = tasks"
    by (auto simp: tasks_def band_fit_def band_pairs_def)
  have "match_images lib sched x y histogram
        = future_results (run_pool sched (zip [0..<length tasks] tasks) Map.empty) [0..<length tasks]"
    using Inr p by (simp only: match_images_def Let_def t sum.case prod.case)
  then show ?thesis using Inr p pool_results[of sched tasks]
    by (simp add: tasks_def)
qed

lemma in_order_map_Inr: "in_order (map Inr vs) = Inr vs"
  by (induction vs) simp_all

lemma in_order_all:
  assumes "\<forall>i < length rs. rs ! i = Inr (r i)"
  shows "in_order rs = Inr (map r [0..<length rs])"
proof -
  have "rs = map Inr (map r [0..<length rs])"
    using assms by (intro nth_equalityI) simp_all
  then show ?thesis using in_order_map_Inr[of "map r [0..<length rs]"] by simp
qed

lemma in_order_first_failure:
  "\<exists>t \<in> set rs. \<exists>e. t = Inl e \<Longrightarrow>
   \<exists>i < length rs. \<exists>e. rs ! i = Inl e \<and> (\<forall>j<i. \<exists>v. rs ! j = Inr v) \<and> in_order rs = Inl e"
proof (induction rs)
  case Nil
  then show ?case by simp
next
  case (Cons t rs)
  show ?case
  proof (cases t)
    case (Inl e)
    then have "(t # rs) ! 0 = Inl e \<and> (\<forall>j<0. \<exists>v. (t # rs) ! j = Inr v)
               \<and> in_order (t # rs) = Inl e" by simp
    then show ?thesis by blast
  next
    case (Inr v)
    with Cons.prems have "\<exists>t \<in> set rs. \<exists>e. t = Inl e" by auto
    from Cons.IH[OF this] obtain i e where
      i: "i < length rs" "rs ! i = Inl e" "\<forall>j<i. \<exists>v. rs ! j = Inr v" "in_order rs = Inl e"
      by blast
    have "\<forall>j<Suc i. \<exists>w. (t # rs) ! j = Inr w"
      using i(3) Inr by (auto simp: less_Suc_eq_0_disj)
    with i have "Suc i < length (t # rs) \<and> (t # rs) ! Suc i = Inl e
                 \<and> (\<forall>j<Suc i. \<exists>w. (t # rs) ! j = Inr w) \<and> in_order (t # rs) = Inl e"
      using Inr by simp
    then show ?thesis by blast
  qed
qed

text \<open>The pairs are the bands of the two images up to the shorter list of bands.\<close>

lemma match_images_first_bands:
  assumes "resize_down lib x y = Inr (x', y')"
  shows "match_images lib sched x y histogram
         = Some (in_order (map (\<lambda>i. band_fit lib histogram
                                       (snd (im_bands x' ! i), snd (im_bands y' ! i)))
                            [0..<min (length (im_bands x')) (length (im_bands y'))]))"
proof -
  let ?n = "min (length (im_bands x')) (length (im_bands y'))"
  have "band_pairs x' y' = map (\<lambda>i. (snd (im_bands x' ! i), snd (im_bands y' ! i))) [0..<?n]"
    by (intro nth_equalityI) (simp_all add: band_pairs_def)
  then have "map (band_fit lib histogram) (band_pairs x' y')
             = map (\<lambda>i. band_fit lib histogram (snd (im_bands x' ! i), snd (im_bands y' ! i)))
                 [0..<?n]"
    by (simp add: comp_def)
  then show ?thesis using assms by (simp add: match_images_eq)
qed

section \<open>Fitting one band\<close>

lemma linspace_even_positions:
  assumes "2 \<le> samples"
  shows "linspace 0 1 samples = Inr (even_positions (nat samples))"
proof -
  have "real_of_int (samples - 1) = real (nat samples - 1)"
    using assms by (simp add: of_nat_diff)
  then show ?thesis using assms by (simp add: linspace_def even_positions_def)
qed

lemma even_positions_ends:
  assumes "2 \<le> n"
  shows "length (even_positions n) = n \<and> hd (even_positions n) = 0 \<and> last (even_positions n) = 1"
proof -
  have ne: "[0..<n] \<noteq> []" using assms by simp
  have "hd (even_positions n) = 0"
    using ne by (simp add: even_positions_def hd_map)
  moreover have "last (even_positions n) = 1"
    using ne assms by (simp add: even_positions_def last_map)
  ultimately show ?thesis by (simp add: even_positions_def)
qed

text \<open>
  C2, as stated, fails for a sample count of one: \<^verbatim>\<open>np.linspace(0, 1, 1)\<close> is the
  position 0 alone, so only the 0-quantile (the minimum) is computed and the 1-quantile
  (the maximum, here 255/255 = 1) is not: the solver sees the single pair (0, 0), and
  the solver that reads the white point off the last target value reads 0.
\<close>

theorem single_sample_misses_upper_quantile:
  "linspace 0 1 1 = Inr [0]
   \<and> scaled_quantiles white_lib [0, 255] 1 = Inr [Finite 0]
   \<and> match_histogram white_lib [0, 255] [0, 255] None (Some 1) = Inr (white_at 0)"
  by (simp add: match_histogram_def linspace_def scaled_quantiles_def white_lib_def
      example_lib_def quantile_linear_def solver_white_point_def white_at_def
      identity_adjustment_def)

text \<open>
  C2, amended. For a sample count of at least two (2048 when the argument is left
  out), \<open>match_histogram\<close> is the histogram strategy of the specification: the
  quantiles of \<open>x\<close> and of \<open>y\<close>, each on its own, at the sample count's evenly spaced
  positions, which start at 0 and end at 1, divided by 255, then the bounded fit of
  \<open>level_array\<close> from the guess \<open>(0,1,0,1,1)\<close> in the box \<open>[0,1]\<^sup>4 \<times> [0,\<infinity>)\<close> with the
  given step tolerance (1/1024 when left out).
\<close>

theorem match_histogram_fit:
  assumes "2 \<le> (case samples_kw of None \<Rightarrow> 2048 | Some n \<Rightarrow> n)"
  shows "match_histogram lib x y xtol_kw samples_kw
         = fit_by_histogram lib x y (case xtol_kw of None \<Rightarrow> 1 / 1024 | Some t \<Rightarrow> t)
             (nat (case samples_kw of None \<Rightarrow> 2048 | Some n \<Rightarrow> n))
         \<and> length (even_positions (nat (case samples_kw of None \<Rightarrow> 2048 | Some n \<Rightarrow> n)))
             = nat (case samples_kw of None \<Rightarrow> 2048 | Some n \<Rightarrow> n)
         \<and> hd (even_positions (nat (case samples_kw of None \<Rightarrow> 2048 | Some n \<Rightarrow> n))) = 0
         \<and> last (even_positions (nat (case samples_kw of None \<Rightarrow> 2048 | Some n \<Rightarrow> n))) = 1"
proof -
  let ?n = "case samples_kw of None \<Rightarrow> 2048 | Some n \<Rightarrow> n"
  have "match_histogram lib x y xtol_kw samples_kw
        = fit_by_histogram lib x y (case xtol_kw of None \<Rightarrow> 1 / 1024 | Some t \<Rightarrow> t) (nat ?n)"
    using linspace_even_positions[OF assms]
    by (simp add: match_histogram_def fit_by_histogram_def scaled_quantiles_def bounded_fit_def
        Let_def split: sum.splits)
  moreover have "2 \<le> nat ?n" using assms by simp
  ultimately show ?thesis using even_positions_ends[of "nat ?n"] by simp
qed

theorem match_histogram_fit_witness:
  "(2::int) \<le> 3
   \<and> even_positions 3 = [0, 1 / 2, 1]
   \<and> match_histogram white_lib [0, 128, 255] [0, 51, 102] None (Some 3)
       = fit_by_histogram white_lib [0, 128, 255] [0, 51, 102] (1 / 1024) 3
   \<and> match_histogram white_lib [0, 128, 255] [0, 51, 102] None (Some 3) = Inr (white_at (2 / 5))"
proof -
  have e: "even_positions 3 = [0, 1 / 2, 1]"
    by (simp add: even_positions_def upt_rec)
  have f: "fit_by_histogram white_lib [0, 128, 255] [0, 51, 102] (1 / 1024) 3
           = Inr (white_at (2 / 5))"
    by (simp add: fit_by_histogram_def e bounded_fit_def white_lib_def example_lib_def
        quantile_linear_def solver_white_point_def white_at_def identity_adjustment_def Let_def)
  from match_histogram_fit [of "Some 3" white_lib "[0, 128, 255]" "[0, 51, 102]" None] e f
  show ?thesis by simp
qed

text \<open>
  C3. In \<open>match_array\<close> the initial guess of the pixel fit is the result of
  \<open>match_histogram\<close> on the same arrays with tolerance 1/256 and the same sample count
  exactly when the array has more elements than the sample count, and \<open>(0,1,0,1,1)\<close>
  otherwise; the pixel fit is the bounded fit on all pixels divided by 255 with the
  caller's tolerance. A failure of the histogram fit is the failure of the call.
\<close>

theorem match_array_initial_guess:
  "match_array lib x y xtol_kw samples_kw =
     (let tolerance = (case xtol_kw of None \<Rightarrow> 1 / 1024 | Some t \<Rightarrow> t);
          sample_count = (case samples_kw of None \<Rightarrow> 2048 | Some n \<Rightarrow> n);
          xs = map (\<lambda>v. fdiv (Finite v) (Finite 255)) x;
          ys = map (\<lambda>v. fdiv (Finite v) (Finite 255)) y
      in if int (length x) > sample_count
         then (case match_histogram lib x y (Some (1 / 256)) (Some sample_count) of
                 Inl e \<Rightarrow> Inl e
               | Inr seed \<Rightarrow> bounded_fit lib xs ys tolerance (fields seed))
         else bounded_fit lib xs ys tolerance [Finite 0, Finite 1, Finite 0, Finite 1, Finite 1])"
  by (simp add: match_array_def bounded_fit_def Let_def split: sum.splits)

lemma in_unit_bounds: "fle (Finite 0) v \<Longrightarrow> fle v (Finite 1) \<Longrightarrow> in_unit v"
  by (cases v) simp_all

lemma nonneg_finite_bounds: "fle (Finite 0) v \<Longrightarrow> is_finite v \<Longrightarrow> nonneg_finite v"
  by (cases v) simp_all

lemma LevelsAdjustment_of_in_box:
  assumes "within_bounds popt
             ([Finite 0, Finite 0, Finite 0, Finite 0, Finite 0],
              [Finite 1, Finite 1, Finite 1, Finite 1, PosInf])"
      and "LevelsAdjustment_of popt = Inr adj"
  shows "in_box adj"
proof -
  from assms(1) have "length popt = 5"
    by (auto simp: within_bounds_def dest: list_all2_lengthD)
  then obtain a b c d e where popt: "popt = [a, b, c, d, e]"
    by (auto simp: length_Suc_conv eval_nat_numeral)
  with assms(2) have adj: "adj = \<lparr>input_black = a, input_white = b, output_black = c,
      output_white = d, gamma = e\<rparr>" by simp
  from assms(1) popt show ?thesis
    by (simp add: within_bounds_def adj in_box_def in_unit_bounds nonneg_finite_bounds)
qed

lemma curve_fit_in_box:
  assumes "respects_bounds lib" "curve_fit lib c = Inr popt"
      and "arg_bounds c = ([Finite 0, Finite 0, Finite 0, Finite 0, Finite 0],
                           [Finite 1, Finite 1, Finite 1, Finite 1, PosInf])"
      and "LevelsAdjustment_of popt = Inr adj"
  shows "in_box adj"
proof -
  from assms(1,2) have "within_bounds popt (arg_bounds c)"
    unfolding respects_bounds_def by blast
  with assms(3,4) show ?thesis by (simp add: LevelsAdjustment_of_in_box)
qed

text \<open>
  What either strategy returns is what the solver returned for a call on the data with
  the box: a failure of the solver is never replaced by parameters of the code's own.
\<close>

lemma match_histogram_returns_popt:
  assumes "match_histogram lib x y xtol_kw samples_kw = Inr adj"
  shows "\<exists>c popt. curve_fit lib c = Inr popt \<and> LevelsAdjustment_of popt = Inr adj
           \<and> scaled_quantiles lib x (case samples_kw of None \<Rightarrow> 2048 | Some n \<Rightarrow> n)
               = Inr (arg_xdata c)
           \<and> scaled_quantiles lib y (case samples_kw of None \<Rightarrow> 2048 | Some n \<Rightarrow> n)
               = Inr (arg_ydata c)
           \<and> arg_bounds c = ([Finite 0, Finite 0, Finite 0, Finite 0, Finite 0],
                              [Finite 1, Finite 1, Finite 1, Finite 1, PosInf])"
  using assms unfolding match_histogram_def Let_def
  by (fastforce split: sum.splits)

lemma match_array_returns_popt:
  assumes "match_array lib x y xtol_kw samples_kw = Inr adj"
  shows "\<exists>c popt. curve_fit lib c = Inr popt \<and> LevelsAdjustment_of popt = Inr adj
           \<and> arg_xdata c = map (\<lambda>v. fdiv (Finite v) (Finite 255)) x
           \<and> arg_ydata c = map (\<lambda>v. fdiv (Finite v) (Finite 255)) y
           \<and> arg_bounds c = ([Finite 0, Finite 0, Finite 0, Finite 0, Finite 0],
                              [Finite 1, Finite 1, Finite 1, Finite 1, PosInf])"
  using assms unfolding match_array_def Let_def
  by (fastforce split: sum.splits if_splits)

lemma match_histogram_in_box:
  assumes "respects_bounds lib" "match_histogram lib x y xtol_kw samples_kw = Inr adj"
  shows "in_box adj"
  using match_histogram_returns_popt[OF assms(2)] assms(1)
  by (blast intro: curve_fit_in_box)

lemma match_array_in_box:
  assumes "respects_bounds lib" "match_array lib x y xtol_kw samples_kw = Inr adj"
  shows "in_box adj"
  using match_array_returns_popt[OF assms(2)] assms(1)
  by (blast intro: curve_fit_in_box)

text \<open>
  A failure of the solver in any call of a fit, the seed's call included, is the failure
  of the fit.
\<close>

lemma histogram_call_failure:
  assumes "c \<in> set (histogram_calls lib x y xtol_kw samples_kw)" "curve_fit lib c = Inl e"
  shows "match_histogram lib x y xtol_kw samples_kw = Inl e"
  using assms
  by (auto simp: histogram_calls_def match_histogram_def fit_call_def Let_def split: sum.splits)

lemma array_call_failure:
  assumes "c \<in> set (array_calls lib x y xtol_kw samples_kw)" "curve_fit lib c = Inl e"
  shows "match_array lib x y xtol_kw samples_kw = Inl e"
proof -
  let ?samples = "case samples_kw of None \<Rightarrow> 2048 | Some n \<Rightarrow> n"
  show ?thesis
  proof (cases "int (length x) > ?samples")
    case False
    with assms show ?thesis
      by (auto simp: array_calls_def match_array_def fit_call_def Let_def split: sum.splits)
  next
    case True
    show ?thesis
    proof (cases "c \<in> set (histogram_calls lib x y (Some (1 / 256)) (Some ?samples))")
      case True
      from histogram_call_failure[OF True assms(2)] \<open>int (length x) > ?samples\<close> show ?thesis
        by (simp add: match_array_def Let_def)
    next
      case False
      show ?thesis
      proof (cases "match_histogram lib x y (Some (1 / 256)) (Some ?samples)")
        case (Inl e')
        with assms(1) False \<open>int (length x) > ?samples\<close> show ?thesis
          by (simp add: array_calls_def Let_def)
      next
        case (Inr seed)
        with assms(1) False \<open>int (length x) > ?samples\<close>
        have "c = fit_call (map (\<lambda>v. fdiv (Finite v) (Finite 255)) x)
                 (map (\<lambda>v. fdiv (Finite v) (Finite 255)) y)
                 (case xtol_kw of None \<Rightarrow> 1 / 1024 | Some t \<Rightarrow> t) (fields seed)"
          by (simp add: array_calls_def Let_def)
        with assms(2) Inr \<open>int (length x) > ?samples\<close> show ?thesis
          by (simp add: match_array_def fit_call_def Let_def)
      qed
    qed
  qed
qed

lemma solver_call_failure:
  assumes "c \<in> set (solver_calls lib histogram p)" "curve_fit lib c = Inl e"
  shows "band_fit lib histogram p = Inl e"
  using assms histogram_call_failure array_call_failure
  by (auto simp: solver_calls_def band_fit_def split: if_splits)

lemma respects_bounds_example: "respects_bounds example_lib"
  by (simp add: respects_bounds_def example_lib_def solver_at_guess_def)

text \<open>
  C8. With a solver that keeps its promise (finite parameters between the bounds of
  the call), whatever \<open>match_histogram\<close> or \<open>match_array\<close> returns lies in the box: the
  black and white points in \<open>[0,1]\<close>, gamma in \<open>[0,\<infinity>)\<close>. Both pass the box to every
  call of the solver and return its parameters unchanged.
\<close>

theorem fitted_values_within_bounds:
  assumes "respects_bounds lib"
      and "match_histogram lib x y xtol_kw samples_kw = Inr adj
           \<or> match_array lib x y xtol_kw samples_kw = Inr adj"
  shows "in_box adj"
  using assms match_histogram_in_box match_array_in_box by blast

theorem fitted_values_within_bounds_witness:
  "respects_bounds example_lib
   \<and> match_array example_lib [0, 128, 255] [0, 64, 255] None (Some 2) = Inr identity_adjustment
   \<and> in_box identity_adjustment"
proof -
  have m: "match_array example_lib [0, 128, 255] [0, 64, 255] None (Some 2)
           = Inr identity_adjustment"
    by (simp add: match_array_def match_histogram_def linspace_def scaled_quantiles_def
        example_lib_def quantile_linear_def upt_rec solver_at_guess_def within_bounds_def
        identity_adjustment_def fields_def Let_def)
  from fitted_values_within_bounds [OF respects_bounds_example disjI2, OF m]
    m respects_bounds_example
  show ?thesis by simp
qed

section \<open>Matching two images\<close>

text \<open>
  C4. If the solver fails in a call that the fit of a band makes (the call of the
  histogram seed or the call on the data), then that fit raises this failure, nothing
  is put in its place, and \<open>match_images\<close> raises for every run of the pool: the
  failure of the first failing band in band order, which is this very failure when the
  other bands fit. It returns no list, neither a partial one nor one with a default for
  the failed band.
\<close>

theorem fit_failure_aborts_match:
  assumes "resize_down lib x y = Inr (x', y')"
      and "p \<in> set (band_pairs x' y')"
      and "c \<in> set (solver_calls lib histogram p)"
      and "curve_fit lib c = Inl e"
  shows "band_fit lib histogram p = Inl e
         \<and> (\<exists>i < length (band_pairs x' y'). \<exists>e'.
               band_fit lib histogram (band_pairs x' y' ! i) = Inl e'
               \<and> (\<forall>j<i. \<exists>adj. band_fit lib histogram (band_pairs x' y' ! j) = Inr adj)
               \<and> match_images lib sched x y histogram = Some (Inl e'))
         \<and> ((\<forall>q \<in> set (band_pairs x' y'). q \<noteq> p \<longrightarrow> (\<exists>adj. band_fit lib histogram q = Inr adj))
              \<longrightarrow> match_images lib sched x y histogram = Some (Inl e))"
proof -
  let ?ps = "band_pairs x' y'"
  let ?rs = "map (band_fit lib histogram) ?ps"
  have fail: "band_fit lib histogram p = Inl e"
    using assms(3,4) by (rule solver_call_failure)
  with assms(2) have "\<exists>t \<in> set ?rs. \<exists>e. t = Inl e" by auto
  from in_order_first_failure[OF this] obtain i e' where
    i: "i < length ?rs" "?rs ! i = Inl e'" "\<forall>j<i. \<exists>v. ?rs ! j = Inr v" "in_order ?rs = Inl e'"
    by blast
  have m: "match_images lib sched x y histogram = Some (Inl e')"
    using assms(1) i(4) by (simp add: match_images_eq)
  have first: "i < length ?ps" "band_fit lib histogram (?ps ! i) = Inl e'"
    "\<forall>j<i. \<exists>adj. band_fit lib histogram (?ps ! j) = Inr adj"
    using i by auto
  have only: "match_images lib sched x y histogram = Some (Inl e)"
    if "\<forall>q \<in> set ?ps. q \<noteq> p \<longrightarrow> (\<exists>adj. band_fit lib histogram q = Inr adj)"
  proof -
    have "?ps ! i \<in> set ?ps" using first(1) by simp
    with that first(2) have "?ps ! i = p" by force
    with first(2) fail have "e' = e" by simp
    with m show ?thesis by simp
  qed
  from fail first m only show ?thesis by blast
qed

lemma fit_call_alpha:
  "solver_calls failing_lib False (band_pairs la_image la_image ! 1)
   = [fit_call [Finite 1, Finite 1] [Finite 1, Finite 1] (1 / 1024)
        [Finite 0, Finite 1, Finite 0, Finite 1, Finite 1]]"
  by (simp add: solver_calls_def array_calls_def band_pairs_def la_image_def Let_def)

theorem fit_failure_aborts_match_witness:
  "resize_down failing_lib la_image la_image = Inr (la_image, la_image)
   \<and> band_pairs la_image la_image ! 1 \<in> set (band_pairs la_image la_image)
   \<and> solver_calls failing_lib False (band_pairs la_image la_image ! 1)
       = [fit_call [Finite 1, Finite 1] [Finite 1, Finite 1] (1 / 1024)
            [Finite 0, Finite 1, Finite 0, Finite 1, Finite 1]]
   \<and> curve_fit failing_lib
        (fit_call [Finite 1, Finite 1] [Finite 1, Finite 1] (1 / 1024)
           [Finite 0, Finite 1, Finite 0, Finite 1, Finite 1]) = Inl RuntimeError
   \<and> band_fit failing_lib False (band_pairs la_image la_image ! 0) = Inr identity_adjustment
   \<and> band_fit failing_lib False (band_pairs la_image la_image ! 1) = Inl RuntimeError
   \<and> match_images failing_lib [1, 0] la_image la_image False = Some (Inl RuntimeError)"
proof -
  let ?c = "fit_call [Finite 1, Finite 1] [Finite 1, Finite 1] (1 / 1024)
              [Finite 0, Finite 1, Finite 0, Finite 1, Finite 1]"
  have rd: "resize_down failing_lib la_image la_image = Inr (la_image, la_image)"
    by (simp add: resize_down_def)
  have p: "band_pairs la_image la_image ! 1 \<in> set (band_pairs la_image la_image)"
    by (simp add: band_pairs_def la_image_def)
  have calls: "solver_calls failing_lib False (band_pairs la_image la_image ! 1) = [?c]"
    by (rule fit_call_alpha)
  then have c: "?c \<in> set (solver_calls failing_lib False (band_pairs la_image la_image ! 1))"
    by simp
  have e: "curve_fit failing_lib ?c = Inl RuntimeError"
    by (simp add: failing_lib_def example_lib_def solver_failing_on_def fit_call_def)
  have b0: "band_fit failing_lib False (band_pairs la_image la_image ! 0)
            = Inr identity_adjustment"
    by (simp add: band_fit_def band_pairs_def la_image_def match_array_def failing_lib_def
        example_lib_def solver_failing_on_def solver_at_guess_def within_bounds_def
        identity_adjustment_def)
  have others: "\<forall>q \<in> set (band_pairs la_image la_image).
                  q \<noteq> band_pairs la_image la_image ! 1
                  \<longrightarrow> (\<exists>adj. band_fit failing_lib False q = Inr adj)"
    using b0 by (auto simp: band_pairs_def la_image_def)
  from fit_failure_aborts_match [OF rd p c e, of "[1, 0]"] others
  have "band_fit failing_lib False (band_pairs la_image la_image ! 1) = Inl RuntimeError"
    and "match_images failing_lib [1, 0] la_image la_image False = Some (Inl RuntimeError)"
    by blast+
  with rd p calls e b0 show ?thesis by simp
qed

text \<open>
  C5, as stated, fails: for an image of two bands and an image of one band no error is
  signalled. \<^verbatim>\<open>zip\<close> pairs the first bands, their fit is run and a list of one result
  is returned.
\<close>

theorem mismatched_bands_no_error:
  "length (im_bands la_image) = 2 \<and> length (im_bands l_image) = 1
   \<and> match_images example_lib [] la_image l_image False = Some (Inr [identity_adjustment])"
  by (simp add: match_images_def resize_down_def la_image_def l_image_def match_array_def
      example_lib_def solver_at_guess_def within_bounds_def identity_adjustment_def
      Let_def upt_rec)

text \<open>
  C5, amended. For images whose numbers of bands differ, \<open>match_images\<close> signals no
  error of its own: the bands are paired up to the smaller number, the bands beyond it
  are ignored, and the outcome is that of the fits of these pairs in order (every
  result, or the first failure of a fit).
\<close>

theorem mismatched_bands_truncated:
  assumes "resize_down lib x y = Inr (x', y')"
      and "length (im_bands x') \<noteq> length (im_bands y')"
  shows "match_images lib sched x y histogram
         = Some (in_order (map (\<lambda>i. band_fit lib histogram
                                       (snd (im_bands x' ! i), snd (im_bands y' ! i)))
                            [0..<min (length (im_bands x')) (length (im_bands y'))]))"
  using assms(1) by (rule match_images_first_bands)

theorem mismatched_bands_truncated_witness:
  "resize_down example_lib la_image l_image = Inr (la_image, l_image)
   \<and> length (im_bands la_image) \<noteq> length (im_bands l_image)
   \<and> match_images example_lib [0] la_image l_image True = Some (Inr [identity_adjustment])"
proof -
  have rd: "resize_down example_lib la_image l_image = Inr (la_image, l_image)"
    by (simp add: resize_down_def la_image_def l_image_def)
  have ne: "length (im_bands la_image) \<noteq> length (im_bands l_image)"
    by (simp add: la_image_def l_image_def)
  have "band_fit example_lib True (snd (im_bands la_image ! 0), snd (im_bands l_image ! 0))
        = Inr identity_adjustment"
    by (simp add: band_fit_def la_image_def l_image_def match_histogram_def scaled_quantiles_def
        linspace_even_positions even_positions_def quantile_linear_def
        example_lib_def solver_at_guess_def within_bounds_def identity_adjustment_def Let_def)
  with mismatched_bands_truncated [OF rd ne, of "[0]" True] rd ne show ?thesis
    by (simp add: la_image_def l_image_def)
qed

lemma resize_down_sizes:
  assumes "resize_gives_size lib" "resize_down lib x y = Inr (x', y')" "im_size x \<noteq> im_size y"
  shows "im_size x' = min_size x y \<and> im_size y' = min_size x y
         \<and> planes_fit_size x' \<and> planes_fit_size y'"
proof -
  from assms(2,3) have "resize lib x (min_size x y) BICUBIC = Inr x'"
    and "resize lib y (min_size x y) BICUBIC = Inr y'"
    by (auto simp: resize_down_def min_size_def Let_def split: sum.splits)
  with assms(1) show ?thesis unfolding resize_gives_size_def by blast
qed

lemma equal_planes:
  assumes "planes_fit_size x" "planes_fit_size y" "im_size x = im_size y"
  shows "list_all (\<lambda>(bx, by). length bx = length by) (band_pairs x y)"
proof -
  have "length bx = length by" if "(bx, by) \<in> set (band_pairs x y)" for bx "by"
  proof -
    from that have "bx \<in> snd ` set (im_bands x)" "by \<in> snd ` set (im_bands y)"
      by (auto simp: band_pairs_def dest: set_zip_leftD set_zip_rightD)
    then have "length bx = fst (im_size x) * snd (im_size x)"
      and "length by = fst (im_size y) * snd (im_size y)"
      using assms(1,2) by (auto simp: planes_fit_size_def list_all_iff)
    with assms(3) show ?thesis by simp
  qed
  then show ?thesis by (auto simp: list_all_iff)
qed

lemma resize_gives_size_example: "resize_gives_size example_lib"
  by (auto simp: resize_gives_size_def example_lib_def resize_nearest_def planes_fit_size_def
      Let_def list_all_iff split: if_splits)

text \<open>
  C6. For images of different sizes \<open>match_images\<close> resizes both to the element-wise
  minimum of the widths and of the heights, with the bicubic filter, and its outcome is
  that of the fits of the bands of the resized images (an error of \<^verbatim>\<open>resize\<close> itself
  is passed on). With a \<^verbatim>\<open>resize\<close> that returns images of the requested size, both
  resized images have the minimum size and the two planes of every pair have the same
  number of pixels: no fit is run on arrays of different shapes.
\<close>

theorem different_sizes_resized:
  assumes "im_size x \<noteq> im_size y" and "resize_gives_size lib"
  shows "match_images lib sched x y histogram =
           (case resize lib x (min_size x y) BICUBIC of
              Inl e \<Rightarrow> Some (Inl e)
            | Inr x' \<Rightarrow>
                (case resize lib y (min_size x y) BICUBIC of
                   Inl e \<Rightarrow> Some (Inl e)
                 | Inr y' \<Rightarrow> Some (in_order (map (band_fit lib histogram) (band_pairs x' y')))))
         \<and> (\<forall>x' y'. resize_down lib x y = Inr (x', y') \<longrightarrow>
               im_size x' = min_size x y \<and> im_size y' = min_size x y
               \<and> list_all (\<lambda>(bx, by). length bx = length by) (band_pairs x' y'))"
proof
  show "match_images lib sched x y histogram =
           (case resize lib x (min_size x y) BICUBIC of
              Inl e \<Rightarrow> Some (Inl e)
            | Inr x' \<Rightarrow>
                (case resize lib y (min_size x y) BICUBIC of
                   Inl e \<Rightarrow> Some (Inl e)
                 | Inr y' \<Rightarrow> Some (in_order (map (band_fit lib histogram) (band_pairs x' y')))))"
    using assms(1)
    by (simp add: match_images_eq resize_down_def min_size_def Let_def split: sum.splits)
next
  show "\<forall>x' y'. resize_down lib x y = Inr (x', y') \<longrightarrow>
               im_size x' = min_size x y \<and> im_size y' = min_size x y
               \<and> list_all (\<lambda>(bx, by). length bx = length by) (band_pairs x' y')"
  proof (intro allI impI)
    fix x' y' assume rd: "resize_down lib x y = Inr (x', y')"
    from resize_down_sizes[OF assms(2) rd assms(1)]
    show "im_size x' = min_size x y \<and> im_size y' = min_size x y
               \<and> list_all (\<lambda>(bx, by). length bx = length by) (band_pairs x' y')"
      by (simp add: equal_planes)
  qed
qed

theorem different_sizes_resized_witness:
  "im_size la_image \<noteq> im_size la_pixel \<and> resize_gives_size example_lib
   \<and> min_size la_image la_pixel = (1, 1)
   \<and> resize example_lib la_image (1, 1) BICUBIC = Inr la_pixel
   \<and> match_images example_lib [1] la_image la_pixel False
       = Some (Inr [identity_adjustment, identity_adjustment])"
proof -
  have ne: "im_size la_image \<noteq> im_size la_pixel" by (simp add: la_image_def la_pixel_def)
  have ms: "min_size la_image la_pixel = (1, 1)"
    by (simp add: min_size_def la_image_def la_pixel_def)
  have r1: "resize example_lib la_image (1, 1) BICUBIC = Inr la_pixel"
    by (simp add: example_lib_def resize_nearest_def la_image_def la_pixel_def)
  have r2: "resize example_lib la_pixel (1, 1) BICUBIC = Inr la_pixel"
    by (simp add: example_lib_def resize_nearest_def la_pixel_def)
  have fits: "map (band_fit example_lib False) (band_pairs la_pixel la_pixel)
              = [Inr identity_adjustment, Inr identity_adjustment]"
    by (simp add: band_fit_def band_pairs_def la_pixel_def match_array_def example_lib_def
        solver_at_guess_def within_bounds_def identity_adjustment_def)
  from different_sizes_resized [OF ne resize_gives_size_example, of "[1]" False]
  have "match_images example_lib [1] la_image la_pixel False
       = Some (in_order (map (band_fit example_lib False) (band_pairs la_pixel la_pixel)))"
    by (simp only: ms r1 r2 sum.case)
  then have "match_images example_lib [1] la_image la_pixel False
       = Some (Inr [identity_adjustment, identity_adjustment])"
    by (simp add: fits)
  with ne ms r1 resize_gives_size_example show ?thesis by simp
qed

lemma match_images_any_run:
  "match_images lib sched x y histogram = match_images lib sched' x y histogram"
  by (simp add: match_images_eq)

text \<open>
  C7. For two images with the same \<open>n\<close> bands (after the size step), \<open>match_images\<close>
  returns the outcomes of the \<open>n\<close> fits read in band order, the same for every run of
  the pool; when every fit returns parameters this is the list of exactly \<open>n\<close> results
  whose \<open>i\<close>-th element is the fit of the \<open>i\<close>-th pair of bands, by \<open>match_array\<close> or,
  when the histogram is requested, by \<open>match_histogram\<close>.
\<close>

theorem results_in_channel_order:
  assumes "resize_down lib x y = Inr (x', y')"
      and "map fst (im_bands x') = map fst (im_bands y')"
      and "n = length (im_bands x')"
  shows "match_images lib sched x y histogram
         = Some (in_order (map (\<lambda>i. band_fit lib histogram
                                       (snd (im_bands x' ! i), snd (im_bands y' ! i)))
                            [0..<n]))
         \<and> match_images lib sched x y histogram = match_images lib sched' x y histogram
         \<and> ((\<forall>i<n. band_fit lib histogram (snd (im_bands x' ! i), snd (im_bands y' ! i))
                      = Inr (r i))
              \<longrightarrow> match_images lib sched x y histogram = Some (Inr (map r [0..<n])))"
proof -
  from assms(2) have "length (im_bands x') = length (im_bands y')"
    by (metis length_map)
  with assms(3) have n: "min (length (im_bands x')) (length (im_bands y')) = n" by simp
  let ?rs = "map (\<lambda>i. band_fit lib histogram (snd (im_bands x' ! i), snd (im_bands y' ! i)))
               [0..<n]"
  have eq: "match_images lib sched x y histogram = Some (in_order ?rs)"
    using match_images_first_bands[OF assms(1), of sched histogram] n by simp
  have "in_order ?rs = Inr (map r [0..<n])"
    if "\<forall>i<n. band_fit lib histogram (snd (im_bands x' ! i), snd (im_bands y' ! i)) = Inr (r i)"
  proof -
    from that have "\<forall>i < length ?rs. ?rs ! i = Inr (r i)" by simp
    from in_order_all[OF this] show ?thesis by simp
  qed
  with eq match_images_any_run[of lib sched x y histogram sched'] show ?thesis by simp
qed

theorem results_in_channel_order_witness:
  "resize_down white_lib rgb_x rgb_y = Inr (rgb_x, rgb_y)
   \<and> map fst (im_bands rgb_x) = map fst (im_bands rgb_y)
   \<and> match_images white_lib [2, 0, 1] rgb_x rgb_y False
       = Some (Inr [white_at 1, white_at (4 / 5), white_at (2 / 5)])
   \<and> match_images white_lib [] rgb_x rgb_y False
       = Some (Inr [white_at 1, white_at (4 / 5), white_at (2 / 5)])"
proof -
  have rd: "resize_down white_lib rgb_x rgb_y = Inr (rgb_x, rgb_y)"
    by (simp add: resize_down_def rgb_x_def rgb_y_def)
  have m: "map fst (im_bands rgb_x) = map fst (im_bands rgb_y)"
    by (simp add: rgb_x_def rgb_y_def)
  have n: "3 = length (im_bands rgb_x)" by (simp add: rgb_x_def)
  have fits: "\<forall>i<3. band_fit white_lib False (snd (im_bands rgb_x ! i), snd (im_bands rgb_y ! i))
                = Inr ([white_at 1, white_at (4 / 5), white_at (2 / 5)] ! i)"
    by (simp add: All_less_Suc numeral_3_eq_3 band_fit_def rgb_x_def rgb_y_def match_array_def
        white_lib_def example_lib_def solver_white_point_def white_at_def identity_adjustment_def)
  have l: "map ((!) [white_at 1, white_at (4 / 5), white_at (2 / 5)]) [0..<3]
           = [white_at 1, white_at (4 / 5), white_at (2 / 5)]"
    by (simp add: upt_rec)
  from results_in_channel_order
         [OF rd m n, of "[2, 0, 1]" False, THEN conjunct2, THEN conjunct2, THEN mp, OF fits]
       results_in_channel_order
         [OF rd m n, of "[]" False, THEN conjunct2, THEN conjunct2, THEN mp, OF fits]
       rd m l
  show ?thesis by simp
qed

end
